theory Spec2Isabelle
  imports Complex_Main "HOL-Library.Multiset"
begin

section \<open>Price comparison logic of the grocery front end (src/src/App.js)\<close>

text \<open>
  The two search components of \<^verbatim>\<open>App.js\<close>, \<^verbatim>\<open>GuestSearch\<close> (lines 321-548) and
  \<^verbatim>\<open>Search\<close> (lines 760-968), each hold the fetched search response in the React state
  \<^verbatim>\<open>results\<close> and define two closures over it, \<^verbatim>\<open>getLowestPrice(productId)\<close> and
  \<^verbatim>\<open>prepareChartData(productId)\<close>, which the render body calls once per product.
  Both components are embedded separately, each from its own lines.
\<close>

subsection \<open>JavaScript values of the \<^verbatim>\<open>price\<close> field\<close>

text \<open>
  The response is decoded JSON. A \<^verbatim>\<open>price\<close> field is modelled as a JSON number, JSON
  \<^verbatim>\<open>null\<close>, or \<^verbatim>\<open>undefined\<close> (the field is missing). A number is the exact rational
  value of the IEEE double: on finite doubles the outcome of \<^verbatim>\<open><\<close> and the sign of the
  rounded difference \<^verbatim>\<open>a - b\<close> agree with the exact order, and JSON has no infinities or NaN.
  Strings, booleans and objects in the \<^verbatim>\<open>price\<close> field are outside this model.
\<close>

datatype jsval = is_JNumber: JNumber (the_number: rat) | JNull | JUndefined

datatype jsnum = Fin rat | NaN

fun ToNumber :: "jsval \<Rightarrow> jsnum" where
  "ToNumber (JNumber r) = Fin r"
| "ToNumber JNull = Fin 0"
| "ToNumber JUndefined = NaN"

text \<open>\<^verbatim>\<open>a < b\<close> on non-string operands: both go through ToNumber; a NaN operand gives false.\<close>

definition js_lt :: "jsval \<Rightarrow> jsval \<Rightarrow> bool" where
  "js_lt a b = (case ToNumber a of NaN \<Rightarrow> False
                | Fin x \<Rightarrow> (case ToNumber b of NaN \<Rightarrow> False | Fin y \<Rightarrow> x < y))"

text \<open>\<^verbatim>\<open>a - b\<close>: both operands go through ToNumber; a NaN operand gives NaN.\<close>

definition js_sub :: "jsval \<Rightarrow> jsval \<Rightarrow> jsnum" where
  "js_sub a b = (case ToNumber a of NaN \<Rightarrow> NaN
                 | Fin x \<Rightarrow> (case ToNumber b of NaN \<Rightarrow> NaN | Fin y \<Rightarrow> Fin (x - y)))"

subsection \<open>Array.prototype.reduce and Array.prototype.sort\<close>

text \<open>\<^verbatim>\<open>xs.reduce(callback, initialValue)\<close> calls \<^verbatim>\<open>callback(accumulator, element)\<close> from left to right.\<close>

definition Array_reduce :: "('b \<Rightarrow> 'a \<Rightarrow> 'b) \<Rightarrow> 'b \<Rightarrow> 'a list \<Rightarrow> 'b" where
  "Array_reduce callback initialValue xs = foldl callback initialValue xs"

text \<open>
  ECMAScript's SortCompare turns a NaN returned by the comparator into \<open>+0\<close>. Since ES2019 the
  sort is required to be stable, and for a consistent comparator the result is the unique
  stable ordering, whatever algorithm the engine uses (\<open>stable_sort_unique\<close> below).
  The model is a stable insertion sort driven by the comparator: \<open>x\<close> moves behind \<open>y\<close>
  exactly when \<^verbatim>\<open>comparefn(x, y) > 0\<close>. For an inconsistent comparator ECMAScript leaves the
  order to the implementation; there the model is one admissible behaviour.
\<close>

definition SortCompare :: "('a \<Rightarrow> 'a \<Rightarrow> jsnum) \<Rightarrow> 'a \<Rightarrow> 'a \<Rightarrow> rat" where
  "SortCompare comparefn x y = (case comparefn x y of NaN \<Rightarrow> 0 | Fin v \<Rightarrow> v)"

fun sort_insert :: "('a \<Rightarrow> 'a \<Rightarrow> jsnum) \<Rightarrow> 'a \<Rightarrow> 'a list \<Rightarrow> 'a list" where
  "sort_insert comparefn x [] = [x]"
| "sort_insert comparefn x (y # ys) =
     (if SortCompare comparefn x y > 0 then y # sort_insert comparefn x ys else x # y # ys)"

definition Array_sort :: "('a \<Rightarrow> 'a \<Rightarrow> jsnum) \<Rightarrow> 'a list \<Rightarrow> 'a list" where
  "Array_sort comparefn xs = foldr (sort_insert comparefn) xs []"

subsection \<open>The search response\<close>

record product =
  id_field :: string
  name :: string
  category :: string
  weight :: "string option"
  quantity :: "string option"
  unit_field :: "string option"
  image_url :: "string option"

record observation =
  store :: string
  price :: jsval

text \<open>
  \<^verbatim>\<open>results\<close> is \<^verbatim>\<open>null\<close> until a response arrives; \<^verbatim>\<open>results.products\<close> and
  \<^verbatim>\<open>results.prices\<close> may each be missing; the own entries of \<^verbatim>\<open>results.prices\<close> map
  product identifiers to arrays of observations.
\<close>

record results =
  products :: "product list option"
  prices :: "(string \<rightharpoonup> observation list) option"

record dataset =
  label :: string
  data :: "jsval list"
  backgroundColor :: "string list"
  borderColor :: "string list"
  borderWidth :: nat

record chart_data =
  labels :: "string list"
  datasets :: "dataset list"

definition price_label :: string where
  "price_label = ''Price ('' @ [CHR 0xA3] @ '')''"

subsection \<open>Property reads\<close>

datatype js_error = TypeError

text \<open>
  \<^verbatim>\<open>results.prices\<close> is an ordinary object, so \<^verbatim>\<open>results.prices[productId]\<close> finds an own
  entry first and otherwise a member inherited from \<^verbatim>\<open>Object.prototype\<close>. The table lists
  the inherited members with their \<^verbatim>\<open>length\<close> property: the functions have the number of
  their formal parameters, and \<^verbatim>\<open>__proto__\<close> reads as the prototype object, which has no
  \<^verbatim>\<open>length\<close>. Every inherited member is truthy, has no \<^verbatim>\<open>reduce\<close> and is not iterable.
\<close>

definition Object_prototype :: "(string \<times> nat option) list" where
  "Object_prototype =
     [(''constructor'', Some 1), (''__defineGetter__'', Some 2), (''__defineSetter__'', Some 2),
      (''hasOwnProperty'', Some 1), (''__lookupGetter__'', Some 1), (''__lookupSetter__'', Some 1),
      (''isPrototypeOf'', Some 1), (''propertyIsEnumerable'', Some 1), (''toString'', Some 0),
      (''valueOf'', Some 0), (''__proto__'', None), (''toLocaleString'', Some 0)]"

datatype 'a property = Own 'a | Inherited "nat option" | Absent

definition get_property :: "(string \<rightharpoonup> 'a) \<Rightarrow> string \<Rightarrow> 'a property" where
  "get_property obj k =
     (case obj k of Some x \<Rightarrow> Own x
      | None \<Rightarrow> (case map_of Object_prototype k of Some len \<Rightarrow> Inherited len | None \<Rightarrow> Absent))"

subsection \<open>Rendering\<close>

text \<open>
  \<^verbatim>\<open>v.toFixed(2)\<close>: reading a property of \<^verbatim>\<open>null\<close> or \<^verbatim>\<open>undefined\<close> raises a TypeError.
  On a number it formats the value; the formatting is presentation, so the model keeps
  the number.
\<close>

definition toFixed :: "jsval \<Rightarrow> js_error + rat" where
  "toFixed v = (case v of JNumber r \<Rightarrow> Inr r | JNull \<Rightarrow> Inl TypeError | JUndefined \<Rightarrow> Inl TypeError)"

record card =
  card_key :: string
  card_product :: product
  best_price :: "(rat \<times> string) option"
  chart :: "chart_data option"

text \<open>\<^verbatim>\<open>xs.map(f)\<close> where \<^verbatim>\<open>f\<close> may raise: the first exception ends the whole map.\<close>

fun map_or_raise :: "('a \<Rightarrow> js_error + 'b) \<Rightarrow> 'a list \<Rightarrow> js_error + 'b list" where
  "map_or_raise f [] = Inr []"
| "map_or_raise f (x # xs) =
     (case f x of Inl e \<Rightarrow> Inl e
      | Inr y \<Rightarrow> (case map_or_raise f xs of Inl e \<Rightarrow> Inl e | Inr ys \<Rightarrow> Inr (y # ys)))"

subsection \<open>Arrays as mutable objects\<close>

text \<open>
  For the question whether the caller's array is changed, arrays live in a heap and
  \<^verbatim>\<open>results.prices\<close> holds references to them. The spread \<^verbatim>\<open>[...xs]\<close> allocates a new
  array with the elements of \<^verbatim>\<open>xs\<close>; \<^verbatim>\<open>xs.sort(f)\<close> overwrites \<^verbatim>\<open>xs\<close> and returns
  the same reference.
\<close>

type_synonym ref = nat

type_synonym heap = "observation list list"

record results_ref =
  products_ref :: "product list option"
  prices_ref :: "(string \<rightharpoonup> ref) option"

definition spread :: "ref \<Rightarrow> heap \<Rightarrow> ref \<times> heap" where
  "spread a h = (length h, h @ [h ! a])"

definition sort_in_place :: "(observation \<Rightarrow> observation \<Rightarrow> jsnum) \<Rightarrow> ref \<Rightarrow> heap \<Rightarrow> ref \<times> heap" where
  "sort_in_place comparefn a h = (a, h[a := Array_sort comparefn (h ! a)])"

text \<open>The response as a value: every reference replaced by the array it points to.\<close>

definition deref :: "heap \<Rightarrow> results_ref option \<Rightarrow> results option" where
  "deref h res =
     map_option (\<lambda>r. \<lparr> products = products_ref r,
                        prices = map_option (\<lambda>pm k. map_option (\<lambda>a. h ! a) (pm k)) (prices_ref r) \<rparr>) res"

subsection \<open>GuestSearch (lines 352-389, 430-437, 478-488)\<close>

text \<open>
  \<^verbatim>\<open>getLowestPrice\<close>. On an inherited member the first guard passes; the closure returns
  \<^verbatim>\<open>null\<close> if the member's \<^verbatim>\<open>length\<close> is 0 and otherwise calls \<^verbatim>\<open>prices.reduce\<close>, which is
  not a function.
\<close>

definition GuestSearch_getLowestPrice :: "results option \<Rightarrow> string \<Rightarrow> js_error + observation option" where
  "GuestSearch_getLowestPrice res productId =
     (case res of None \<Rightarrow> Inr None
      | Some r \<Rightarrow>
        (case prices r of None \<Rightarrow> Inr None
         | Some pm \<Rightarrow>
           (case get_property pm productId of
              Absent \<Rightarrow> Inr None
            | Inherited len \<Rightarrow> if len = Some 0 then Inr None else Inl TypeError
            | Own ps \<Rightarrow>
              (case ps of [] \<Rightarrow> Inr None
               | p0 # _ \<Rightarrow>
                   Inr (Some (Array_reduce
                                (\<lambda>mn p. if js_lt (price p) (price mn) then p else mn) p0 ps))))))"

definition GuestSearch_sortedPrices :: "observation list \<Rightarrow> observation list" where
  "GuestSearch_sortedPrices ps = Array_sort (\<lambda>a b. js_sub (price a) (price b)) ps"

text \<open>The object literal returned at lines 373-388, as a function of \<^verbatim>\<open>sortedPrices\<close>.\<close>

definition GuestSearch_chart :: "observation list \<Rightarrow> chart_data" where
  "GuestSearch_chart sortedPrices =
     \<lparr> labels = map store sortedPrices,
       datasets =
         [\<lparr> label = price_label,
            data = map price sortedPrices,
            backgroundColor =
              map (\<lambda>index. if index = 0 then ''rgba(34, 197, 94, 0.7)''
                            else ''rgba(99, 102, 241, 0.5)'')
                  [0 ..< length sortedPrices],
            borderColor =
              map (\<lambda>index. if index = 0 then ''rgb(34, 197, 94)''
                            else ''rgb(79, 70, 229)'')
                  [0 ..< length sortedPrices],
            borderWidth = 1 \<rparr>] \<rparr>"

text \<open>
  \<^verbatim>\<open>prepareChartData\<close>. On an inherited member the guard passes and the spread
  \<^verbatim>\<open>[...prices]\<close> raises, as the member is not iterable.
\<close>

definition GuestSearch_prepareChartData :: "results option \<Rightarrow> string \<Rightarrow> js_error + chart_data option" where
  "GuestSearch_prepareChartData res productId =
     (case res of None \<Rightarrow> Inr None
      | Some r \<Rightarrow>
        (case prices r of None \<Rightarrow> Inr None
         | Some pm \<Rightarrow>
           (case get_property pm productId of
              Absent \<Rightarrow> Inr None
            | Inherited len \<Rightarrow> Inl TypeError
            | Own ps \<Rightarrow>
              (let sortedPrices = GuestSearch_sortedPrices ps in
               Inr (Some (GuestSearch_chart sortedPrices))))))"

text \<open>
  The render body of \<^verbatim>\<open>GuestSearch\<close> (lines 430-437, 478-488): one card per element of
  \<^verbatim>\<open>results.products\<close>, in array order. \<^verbatim>\<open>lowestPrice && ...\<close> shows the best price
  only for a non-null result and calls \<^verbatim>\<open>lowestPrice.price.toFixed(2)\<close> there;
  \<^verbatim>\<open>chartData && ...\<close> shows the chart only for a non-null result. An exception of either
  closure ends the rendering.
\<close>

definition GuestSearch_card :: "results option \<Rightarrow> product \<Rightarrow> js_error + card" where
  "GuestSearch_card res p =
     (case GuestSearch_getLowestPrice res (id_field p) of
        Inl e \<Rightarrow> Inl e
      | Inr lowestPrice \<Rightarrow>
        (case GuestSearch_prepareChartData res (id_field p) of
           Inl e \<Rightarrow> Inl e
         | Inr chartData \<Rightarrow>
           (case lowestPrice of
              None \<Rightarrow> Inr \<lparr> card_key = id_field p, card_product = p,
                             best_price = None, chart = chartData \<rparr>
            | Some lp \<Rightarrow>
                (case toFixed (price lp) of
                   Inl e \<Rightarrow> Inl e
                 | Inr amt \<Rightarrow> Inr \<lparr> card_key = id_field p, card_product = p,
                                   best_price = Some (amt, store lp), chart = chartData \<rparr>))))"

definition GuestSearch_cards :: "results option \<Rightarrow> js_error + card list" where
  "GuestSearch_cards res =
     (case res of None \<Rightarrow> Inr []
      | Some r \<Rightarrow>
        (case products r of None \<Rightarrow> Inr []
         | Some ps \<Rightarrow>
             if length ps > 0 then map_or_raise (GuestSearch_card res) ps else Inr []))"

text \<open>
  \<^verbatim>\<open>prepareChartData\<close> of \<^verbatim>\<open>GuestSearch\<close> on the heap (line 371):
  \<^verbatim>\<open>[...prices].sort(...)\<close> copies the array and sorts the copy in place.
\<close>

definition GuestSearch_prepareChartData_heap ::
  "heap \<Rightarrow> results_ref option \<Rightarrow> string \<Rightarrow> (js_error + chart_data option) \<times> heap" where
  "GuestSearch_prepareChartData_heap h res productId =
     (case res of None \<Rightarrow> (Inr None, h)
      | Some r \<Rightarrow>
        (case prices_ref r of None \<Rightarrow> (Inr None, h)
         | Some pm \<Rightarrow>
           (case get_property pm productId of
              Absent \<Rightarrow> (Inr None, h)
            | Inherited len \<Rightarrow> (Inl TypeError, h)
            | Own ps \<Rightarrow>
              (let (copy, h1) = spread ps h;
                   (sortedPrices, h2) = sort_in_place (\<lambda>a b. js_sub (price a) (price b)) copy h1
               in (Inr (Some (GuestSearch_chart (h2 ! sortedPrices))), h2)))))"

subsection \<open>Search (lines 792-829, 866-868, 910-920)\<close>

text \<open>
  \<^verbatim>\<open>getLowestPrice\<close>. On an inherited member the first guard passes; the closure returns
  \<^verbatim>\<open>null\<close> if the member's \<^verbatim>\<open>length\<close> is 0 and otherwise calls \<^verbatim>\<open>prices.reduce\<close>, which is
  not a function.
\<close>

definition Search_getLowestPrice :: "results option \<Rightarrow> string \<Rightarrow> js_error + observation option" where
  "Search_getLowestPrice res productId =
     (case res of None \<Rightarrow> Inr None
      | Some r \<Rightarrow>
        (case prices r of None \<Rightarrow> Inr None
         | Some pm \<Rightarrow>
           (case get_property pm productId of
              Absent \<Rightarrow> Inr None
            | Inherited len \<Rightarrow> if len = Some 0 then Inr None else Inl TypeError
            | Own ps \<Rightarrow>
              (case ps of [] \<Rightarrow> Inr None
               | p0 # _ \<Rightarrow>
                   Inr (Some (Array_reduce
                                (\<lambda>mn p. if js_lt (price p) (price mn) then p else mn) p0 ps))))))"

definition Search_sortedPrices :: "observation list \<Rightarrow> observation list" where
  "Search_sortedPrices ps = Array_sort (\<lambda>a b. js_sub (price a) (price b)) ps"

text \<open>The object literal returned at lines 813-828, as a function of \<^verbatim>\<open>sortedPrices\<close>.\<close>

definition Search_chart :: "observation list \<Rightarrow> chart_data" where
  "Search_chart sortedPrices =
     \<lparr> labels = map store sortedPrices,
       datasets =
         [\<lparr> label = price_label,
            data = map price sortedPrices,
            backgroundColor =
              map (\<lambda>index. if index = 0 then ''rgba(34, 197, 94, 0.7)''
                            else ''rgba(99, 102, 241, 0.5)'')
                  [0 ..< length sortedPrices],
            borderColor =
              map (\<lambda>index. if index = 0 then ''rgb(34, 197, 94)''
                            else ''rgb(79, 70, 229)'')
                  [0 ..< length sortedPrices],
            borderWidth = 1 \<rparr>] \<rparr>"

text \<open>
  \<^verbatim>\<open>prepareChartData\<close>. On an inherited member the guard passes and the spread
  \<^verbatim>\<open>[...prices]\<close> raises, as the member is not iterable.
\<close>

definition Search_prepareChartData :: "results option \<Rightarrow> string \<Rightarrow> js_error + chart_data option" where
  "Search_prepareChartData res productId =
     (case res of None \<Rightarrow> Inr None
      | Some r \<Rightarrow>
        (case prices r of None \<Rightarrow> Inr None
         | Some pm \<Rightarrow>
           (case get_property pm productId of
              Absent \<Rightarrow> Inr None
            | Inherited len \<Rightarrow> Inl TypeError
            | Own ps \<Rightarrow>
              (let sortedPrices = Search_sortedPrices ps in
               Inr (Some (Search_chart sortedPrices))))))"

text \<open>
  The render body of \<^verbatim>\<open>Search\<close> (lines 866-868, 910-920): one card per element of
  \<^verbatim>\<open>results.products\<close>, in array order. \<^verbatim>\<open>lowestPrice && ...\<close> shows the best price
  only for a non-null result and calls \<^verbatim>\<open>lowestPrice.price.toFixed(2)\<close> there;
  \<^verbatim>\<open>chartData && ...\<close> shows the chart only for a non-null result. An exception of either
  closure ends the rendering.
\<close>

definition Search_card :: "results option \<Rightarrow> product \<Rightarrow> js_error + card" where
  "Search_card res p =
     (case Search_getLowestPrice res (id_field p) of
        Inl e \<Rightarrow> Inl e
      | Inr lowestPrice \<Rightarrow>
        (case Search_prepareChartData res (id_field p) of
           Inl e \<Rightarrow> Inl e
         | Inr chartData \<Rightarrow>
           (case lowestPrice of
              None \<Rightarrow> Inr \<lparr> card_key = id_field p, card_product = p,
                             best_price = None, chart = chartData \<rparr>
            | Some lp \<Rightarrow>
                (case toFixed (price lp) of
                   Inl e \<Rightarrow> Inl e
                 | Inr amt \<Rightarrow> Inr \<lparr> card_key = id_field p, card_product = p,
                                   best_price = Some (amt, store lp), chart = chartData \<rparr>))))"

definition Search_cards :: "results option \<Rightarrow> js_error + card list" where
  "Search_cards res =
     (case res of None \<Rightarrow> Inr []
      | Some r \<Rightarrow>
        (case products r of None \<Rightarrow> Inr []
         | Some ps \<Rightarrow>
             if length ps > 0 then map_or_raise (Search_card res) ps else Inr []))"

text \<open>
  \<^verbatim>\<open>prepareChartData\<close> of \<^verbatim>\<open>Search\<close> on the heap (line 811):
  \<^verbatim>\<open>[...prices].sort(...)\<close> copies the array and sorts the copy in place.
\<close>

definition Search_prepareChartData_heap ::
  "heap \<Rightarrow> results_ref option \<Rightarrow> string \<Rightarrow> (js_error + chart_data option) \<times> heap" where
  "Search_prepareChartData_heap h res productId =
     (case res of None \<Rightarrow> (Inr None, h)
      | Some r \<Rightarrow>
        (case prices_ref r of None \<Rightarrow> (Inr None, h)
         | Some pm \<Rightarrow>
           (case get_property pm productId of
              Absent \<Rightarrow> (Inr None, h)
            | Inherited len \<Rightarrow> (Inl TypeError, h)
            | Own ps \<Rightarrow>
              (let (copy, h1) = spread ps h;
                   (sortedPrices, h2) = sort_in_place (\<lambda>a b. js_sub (price a) (price b)) copy h1
               in (Inr (Some (Search_chart (h2 ! sortedPrices))), h2)))))"

subsection \<open>Either view\<close>

datatype view = GuestSearch | Search

definition getLowestPrice :: "view \<Rightarrow> results option \<Rightarrow> string \<Rightarrow> js_error + observation option" where
  "getLowestPrice v = (case v of GuestSearch \<Rightarrow> GuestSearch_getLowestPrice
                       | Search \<Rightarrow> Search_getLowestPrice)"

definition sortedPrices :: "view \<Rightarrow> observation list \<Rightarrow> observation list" where
  "sortedPrices v = (case v of GuestSearch \<Rightarrow> GuestSearch_sortedPrices
                     | Search \<Rightarrow> Search_sortedPrices)"

definition prepareChartData :: "view \<Rightarrow> results option \<Rightarrow> string \<Rightarrow> js_error + chart_data option" where
  "prepareChartData v = (case v of GuestSearch \<Rightarrow> GuestSearch_prepareChartData
                         | Search \<Rightarrow> Search_prepareChartData)"

definition cards :: "view \<Rightarrow> results option \<Rightarrow> js_error + card list" where
  "cards v = (case v of GuestSearch \<Rightarrow> GuestSearch_cards | Search \<Rightarrow> Search_cards)"

definition prepareChartData_heap ::
  "view \<Rightarrow> heap \<Rightarrow> results_ref option \<Rightarrow> string \<Rightarrow> (js_error + chart_data option) \<times> heap" where
  "prepareChartData_heap v = (case v of GuestSearch \<Rightarrow> GuestSearch_prepareChartData_heap
                              | Search \<Rightarrow> Search_prepareChartData_heap)"

subsection \<open>Vocabulary of the properties\<close>

text \<open>A well-formed observation sequence: every price is a number.\<close>

definition numeric_prices :: "observation list \<Rightarrow> bool" where
  "numeric_prices ps = list_all (\<lambda>p. is_JNumber (price p)) ps"

definition amount :: "observation \<Rightarrow> rat" where
  "amount p = the_number (price p)"

text \<open>
  What both closures read for a product: nothing when \<^verbatim>\<open>results\<close> is null or
  \<^verbatim>\<open>results.prices\<close> is missing, and otherwise the value of
  \<^verbatim>\<open>results.prices[productId]\<close>.
\<close>

definition observations :: "results option \<Rightarrow> string \<Rightarrow> observation list property" where
  "observations res productId =
     (case res of None \<Rightarrow> Absent
      | Some r \<Rightarrow> (case prices r of None \<Rightarrow> Absent | Some pm \<Rightarrow> get_property pm productId))"

text \<open>An identifier that names no member of \<^verbatim>\<open>Object.prototype\<close>.\<close>

definition plain_id :: "string \<Rightarrow> bool" where
  "plain_id k = (map_of Object_prototype k = None)"

text \<open>The comparator of line 371/811 and the reducer of lines 358-359/798-799, named.\<close>

definition by_price :: "observation \<Rightarrow> observation \<Rightarrow> jsnum" where
  "by_price = (\<lambda>a b. js_sub (price a) (price b))"

definition cheaper :: "observation \<Rightarrow> observation \<Rightarrow> observation" where
  "cheaper = (\<lambda>mn p. if js_lt (price p) (price mn) then p else mn)"

subsection \<open>Example inputs\<close>

text \<open>The tied observations \<open>[{A,2.00},{B,2.00},{C,1.50}]\<close>.\<close>

definition tie_example :: "observation list" where
  "tie_example = [\<lparr>store = ''A'', price = JNumber 2\<rparr>,
                  \<lparr>store = ''B'', price = JNumber 2\<rparr>,
                  \<lparr>store = ''C'', price = JNumber (3/2)\<rparr>]"

text \<open>Observations whose minimum price is tied: \<open>[{A,1.00},{B,1.00},{C,2.00}]\<close>.\<close>

definition tied_minimum_example :: "observation list" where
  "tied_minimum_example = [\<lparr>store = ''A'', price = JNumber 1\<rparr>,
                           \<lparr>store = ''B'', price = JNumber 1\<rparr>,
                           \<lparr>store = ''C'', price = JNumber 2\<rparr>]"

definition example_product :: "string \<Rightarrow> string \<Rightarrow> product" where
  "example_product pid nm =
     \<lparr> id_field = pid, name = nm, category = ''dairy'', weight = None, quantity = None,
       unit_field = None, image_url = None \<rparr>"

text \<open>A response with three products, of which \<open>P2\<close> has no entry in the price mapping.\<close>

definition sparse_example :: results where
  "sparse_example =
     \<lparr> products = Some [example_product ''P1'' ''milk'', example_product ''P2'' ''oat milk'',
                        example_product ''P3'' ''butter''],
       prices = Some [''P1'' \<mapsto> tie_example,
                      ''P3'' \<mapsto> [\<lparr>store = ''D'', price = JNumber 1\<rparr>]] \<rparr>"

section \<open>Supporting lemmas\<close>

subsection \<open>The sort on numeric prices is the stable sort by amount\<close>

lemma SortCompare_numeric:
  "is_JNumber (price x) \<Longrightarrow> is_JNumber (price y) \<Longrightarrow>
   SortCompare by_price x y = amount x - amount y"
  by (cases "price x"; cases "price y")
     (simp_all add: SortCompare_def by_price_def js_sub_def amount_def)

lemma sort_insert_numeric:
  "is_JNumber (price x) \<Longrightarrow> numeric_prices ys \<Longrightarrow>
   sort_insert by_price x ys = insort_key amount x ys"
  by (induction ys) (auto simp: numeric_prices_def SortCompare_numeric)

lemma Array_sort_numeric:
  "numeric_prices ps \<Longrightarrow> Array_sort by_price ps = sort_key amount ps"
proof (induction ps)
  case Nil
  show ?case by (simp add: Array_sort_def)
next
  case (Cons p ps)
  then have np: "is_JNumber (price p)" and nps: "numeric_prices ps"
    by (simp_all add: numeric_prices_def)
  have "numeric_prices (sort_key amount ps)"
    using nps by (simp add: numeric_prices_def list_all_iff)
  with Cons.IH [OF nps] np show ?case
    by (simp add: Array_sort_def sort_insert_numeric)
qed

lemma mset_sort_insert: "mset (sort_insert c x ys) = add_mset x (mset ys)"
  by (induction ys) auto

lemma mset_Array_sort: "mset (Array_sort c xs) = mset xs"
  by (induction xs) (simp_all add: Array_sort_def mset_sort_insert)

text \<open>
  Any sequence that is a sorted rearrangement of numeric observations and keeps equally
  priced observations in input order is the one the model computes; so on well-formed
  input the result does not depend on the modelled sorting algorithm.
\<close>

lemma stable_sort_unique:
  assumes "numeric_prices ps" and "mset ys = mset ps" and "sorted (map amount ys)"
    and "\<forall>k. filter (\<lambda>p. amount p = k) ys = filter (\<lambda>p. amount p = k) ps"
  shows "Array_sort by_price ps = ys"
proof -
  have "sort_key amount ps = ys"
  proof (rule properties_for_sort_key)
    show "mset ys = mset ps" by fact
    show "sorted (map amount ys)" by fact
    fix k
    have "filter (\<lambda>x. amount k = amount x) zs = filter (\<lambda>p. amount p = amount k) zs" for zs
      by (rule filter_cong) auto
    with assms(4) show "filter (\<lambda>x. amount k = amount x) ys = filter (\<lambda>x. amount k = amount x) ps"
      by simp
  qed
  with assms(1) show ?thesis by (simp add: Array_sort_numeric)
qed

subsection \<open>The reduction selects the first minimum\<close>

lemma js_lt_numeric:
  "is_JNumber (price x) \<Longrightarrow> is_JNumber (price y) \<Longrightarrow>
   js_lt (price x) (price y) = (amount x < amount y)"
  by (cases "price x"; cases "price y") (simp_all add: js_lt_def amount_def)

lemma numeric_js_lt:
  "numeric_prices ps \<Longrightarrow> x \<in> set ps \<Longrightarrow> y \<in> set ps \<Longrightarrow>
   js_lt (price x) (price y) = (amount x < amount y)"
  by (simp add: numeric_prices_def list_all_iff js_lt_numeric)

lemma reduce_first_min:
  assumes "numeric_prices (a # xs)"
  shows "\<exists>i < length (a # xs). foldl cheaper a xs = (a # xs) ! i
           \<and> (\<forall>j < length (a # xs). amount ((a # xs) ! i) \<le> amount ((a # xs) ! j))
           \<and> (\<forall>j < i. amount ((a # xs) ! i) < amount ((a # xs) ! j))"
  using assms
proof (induction xs rule: rev_induct)
  case Nil
  show ?case by simp
next
  case (snoc x xs)
  define L where "L = a # xs"
  have num: "numeric_prices (L @ [x])"
    using snoc.prems by (simp add: L_def)
  then have "numeric_prices (a # xs)"
    by (simp add: numeric_prices_def L_def)
  from snoc.IH [OF this] obtain i where i: "i < length L"
    and m: "foldl cheaper a xs = L ! i"
    and le: "\<forall>j < length L. amount (L ! i) \<le> amount (L ! j)"
    and first: "\<forall>j < i. amount (L ! i) < amount (L ! j)"
    unfolding L_def by blast
  have lt: "js_lt (price x) (price (L ! i)) = (amount x < amount (L ! i))"
    using i by (intro numeric_js_lt [OF num]) (simp_all add: nth_append)
  have step: "foldl cheaper a (xs @ [x]) = (if amount x < amount (L ! i) then x else L ! i)"
  proof -
    have "foldl cheaper a (xs @ [x]) = cheaper (L ! i) x"
      by (simp add: m)
    then show ?thesis
      by (simp add: cheaper_def lt)
  qed
  show ?case
  proof (cases "amount x < amount (L ! i)")
    case True
    have "length L < length (L @ [x])" by simp
    moreover have "foldl cheaper a (xs @ [x]) = (L @ [x]) ! length L"
      using True step by simp
    moreover have "\<forall>j < length (L @ [x]). amount ((L @ [x]) ! length L) \<le> amount ((L @ [x]) ! j)"
      using True le by (auto simp: nth_append less_Suc_eq)
    moreover have "\<forall>j < length L. amount ((L @ [x]) ! length L) < amount ((L @ [x]) ! j)"
      using True le by (auto simp: nth_append)
    ultimately show ?thesis
      unfolding L_def by (metis append_Cons)
  next
    case False
    have "i < length (L @ [x])" using i by simp
    moreover have "foldl cheaper a (xs @ [x]) = (L @ [x]) ! i"
      using False step i by (simp add: nth_append)
    moreover have "\<forall>j < length (L @ [x]). amount ((L @ [x]) ! i) \<le> amount ((L @ [x]) ! j)"
      using False le i by (auto simp: nth_append less_Suc_eq)
    moreover have "\<forall>j < i. amount ((L @ [x]) ! i) < amount ((L @ [x]) ! j)"
      using first i by (auto simp: nth_append)
    ultimately show ?thesis
      unfolding L_def by (metis append_Cons)
  qed
qed

lemma cheaper_same: "cheaper p p = p"
  by (simp add: cheaper_def)

lemma foldl_cheaper_mem: "foldl cheaper a xs \<in> set (a # xs)"
proof (induction xs rule: rev_induct)
  case Nil
  show ?case by simp
next
  case (snoc x xs)
  then show ?case by (auto simp: cheaper_def)
qed



lemma hd_sort_key_first_min:
  assumes i: "i < length ps"
    and le: "\<forall>j<length ps. f (ps ! i) \<le> f (ps ! j)"
    and first: "\<forall>j<i. f (ps ! i) < f (ps ! j)"
  shows "\<exists>rest. sort_key f ps = ps ! i # rest"
proof -
  define ys where "ys = sort_key f ps"
  define k where "k = f (ps ! i)"
  have "length ys = length ps" by (simp add: ys_def)
  then have "ys \<noteq> []" using i by auto
  then obtain y rest where ys: "ys = y # rest" by (cases ys) auto
  have "y \<in> set ps" using ys by (metis list.set_intros(1) set_sort ys_def)
  then have "k \<le> f y" using le by (auto simp: in_set_conv_nth k_def)
  moreover have "f y \<le> k"
  proof -
    have "sorted (map f ys)" by (simp add: ys_def)
    moreover have "ps ! i \<in> set ys" using i by (simp add: ys_def)
    ultimately show ?thesis by (auto simp: ys k_def)
  qed
  ultimately have fy: "f y = k" by simp
  have st: "filter (\<lambda>x. f x = k) ys = filter (\<lambda>x. f x = k) ps"
    by (simp add: ys_def sort_key_stable)
  have "filter (\<lambda>x. f x = k) (take i ps) = []"
  proof -
    have "f x \<noteq> k" if "x \<in> set (take i ps)" for x
    proof -
      from that obtain j where "j < i" and "x = ps ! j"
        using i by (auto simp: in_set_conv_nth)
      with first have "k < f x" by (simp add: k_def)
      then show ?thesis by simp
    qed
    then show ?thesis by (simp add: filter_empty_conv)
  qed
  moreover have "ps = take i ps @ ps ! i # drop (Suc i) ps"
    using i by (simp add: id_take_nth_drop)
  ultimately have "filter (\<lambda>x. f x = k) ps = ps ! i # filter (\<lambda>x. f x = k) (drop (Suc i) ps)"
    by (metis (mono_tags, lifting) append_Nil filter.simps(2) filter_append k_def)
  with st fy have "y = ps ! i" by (simp add: ys)
  then show ?thesis using ys by (simp add: ys_def)
qed

subsection \<open>The closures in terms of the value they read\<close>

lemma sortedPrices_eq: "sortedPrices v ps = Array_sort by_price ps"
  by (cases v) (simp_all add: sortedPrices_def GuestSearch_sortedPrices_def
      Search_sortedPrices_def by_price_def)

lemma Search_chart_eq: "Search_chart = GuestSearch_chart"
  by (rule ext) (simp add: Search_chart_def GuestSearch_chart_def)

lemma getLowestPrice_eq:
  "getLowestPrice v res pid =
     (case observations res pid of
        Absent \<Rightarrow> Inr None
      | Inherited len \<Rightarrow> if len = Some 0 then Inr None else Inl TypeError
      | Own ps \<Rightarrow> (case ps of [] \<Rightarrow> Inr None
                   | p0 # rest \<Rightarrow> Inr (Some (foldl cheaper p0 rest))))"
  by (cases v)
     (simp_all add: getLowestPrice_def GuestSearch_getLowestPrice_def Search_getLowestPrice_def
        observations_def Array_reduce_def cheaper_same cheaper_def [symmetric]
        split: option.splits list.splits property.splits)

lemma prepareChartData_eq:
  "prepareChartData v res pid =
     (case observations res pid of
        Absent \<Rightarrow> Inr None
      | Inherited len \<Rightarrow> Inl TypeError
      | Own ps \<Rightarrow> Inr (Some (GuestSearch_chart (sortedPrices v ps))))"
  by (cases v)
     (simp_all add: prepareChartData_def GuestSearch_prepareChartData_def
        Search_prepareChartData_def observations_def sortedPrices_def Search_chart_eq
        split: option.splits property.splits)

lemma observations_Own:
  "prices r = Some pm \<Longrightarrow> pm pid = Some ps \<Longrightarrow> observations (Some r) pid = Own ps"
  by (simp add: observations_def get_property_def)

lemma observations_Absent:
  "prices r = Some pm \<Longrightarrow> pm pid = None \<Longrightarrow> plain_id pid \<Longrightarrow>
   observations (Some r) pid = Absent"
  by (simp add: observations_def get_property_def plain_id_def)

lemma first_min_lowest:
  assumes "numeric_prices ps" "ps \<noteq> []" "observations res pid = Own ps"
  shows "\<exists>i<length ps. getLowestPrice v res pid = Inr (Some (ps ! i))
           \<and> (\<forall>j<length ps. amount (ps ! i) \<le> amount (ps ! j))
           \<and> (\<forall>j<i. amount (ps ! i) < amount (ps ! j))"
proof -
  from assms(2) obtain a xs where ps: "ps = a # xs" by (cases ps) auto
  have "getLowestPrice v res pid = Inr (Some (foldl cheaper a xs))"
    by (simp add: getLowestPrice_eq assms(3) ps)
  with reduce_first_min [of a xs] assms(1) show ?thesis
    unfolding ps by simp
qed

lemma lowest_numeric:
  assumes "observations res pid = Own ps" and "numeric_prices ps"
    and "getLowestPrice v res pid = Inr (Some lp)"
  shows "toFixed (price lp) = Inr (amount lp)"
proof -
  from assms(1,3) obtain a xs where ps: "ps = a # xs" and lp: "lp = foldl cheaper a xs"
    by (auto simp: getLowestPrice_eq split: list.splits)
  have "lp \<in> set ps" unfolding ps lp by (rule foldl_cheaper_mem)
  with assms(2) have "is_JNumber (price lp)"
    by (simp add: numeric_prices_def list_all_iff)
  then show ?thesis
    by (cases "price lp") (simp_all add: toFixed_def amount_def)
qed

lemma chart_of_series:
  assumes "prices r = Some pm" and "pm pid = Some ps"
  shows "\<exists>c d. prepareChartData v (Some r) pid = Inr (Some c) \<and> datasets c = [d]
           \<and> labels c = map store (sortedPrices v ps)
           \<and> data d = map price (sortedPrices v ps)"
proof -
  have "prepareChartData v (Some r) pid = Inr (Some (GuestSearch_chart (sortedPrices v ps)))"
    by (simp add: prepareChartData_eq observations_Own assms)
  then show ?thesis
    by (simp add: GuestSearch_chart_def)
qed

subsection \<open>Rendering\<close>

lemma map_or_raise_Inr:
  "(\<And>x. x \<in> set xs \<Longrightarrow> f x = Inr (g x)) \<Longrightarrow> map_or_raise f xs = Inr (map g xs)"
  by (induction xs) simp_all

lemma cards_eq:
  "products r = Some ps \<Longrightarrow>
   cards v (Some r) =
     map_or_raise (case v of GuestSearch \<Rightarrow> GuestSearch_card (Some r)
                   | Search \<Rightarrow> Search_card (Some r)) ps"
  by (cases v; cases ps) (simp_all add: cards_def GuestSearch_cards_def Search_cards_def)

lemma card_eq:
  "(case v of GuestSearch \<Rightarrow> GuestSearch_card res | Search \<Rightarrow> Search_card res) p =
     (case getLowestPrice v res (id_field p) of
        Inl e \<Rightarrow> Inl e
      | Inr lowestPrice \<Rightarrow>
        (case prepareChartData v res (id_field p) of
           Inl e \<Rightarrow> Inl e
         | Inr chartData \<Rightarrow>
           (case lowestPrice of
              None \<Rightarrow> Inr \<lparr> card_key = id_field p, card_product = p, best_price = None,
                             chart = chartData \<rparr>
            | Some lp \<Rightarrow>
                (case toFixed (price lp) of
                   Inl e \<Rightarrow> Inl e
                 | Inr amt \<Rightarrow> Inr \<lparr> card_key = id_field p, card_product = p,
                                   best_price = Some (amt, store lp),
                                   chart = chartData \<rparr>))))"
  by (cases v)
     (simp_all add: GuestSearch_card_def Search_card_def getLowestPrice_def prepareChartData_def
        split: sum.splits option.splits)

text \<open>
  With a missing price the closures return normally, but the render body then reads
  \<^verbatim>\<open>toFixed\<close> of \<^verbatim>\<open>undefined\<close> and raises; hence the numeric prices in the statements
  about rendering.
\<close>

lemma cards_raise_on_missing_price:
  "cards v (Some \<lparr>products = Some [example_product ''P1'' ''milk''],
                   prices = Some [''P1'' \<mapsto> [\<lparr>store = ''A'', price = JUndefined\<rparr>]]\<rparr>)
     = Inl TypeError"
  by (cases v)
     (simp_all add: cards_def GuestSearch_cards_def Search_cards_def GuestSearch_card_def
        Search_card_def GuestSearch_getLowestPrice_def Search_getLowestPrice_def
        GuestSearch_prepareChartData_def Search_prepareChartData_def get_property_def
        Array_reduce_def js_lt_def toFixed_def example_product_def)

text \<open>
  Where no product without an entry is named like a member of \<^verbatim>\<open>Object.prototype\<close> and
  the prices are numeric, sparse data renders as intended: a product without an entry
  gets \<^verbatim>\<open>null\<close> from both closures, its card has neither price nor chart, and the cards
  are in the order of \<^verbatim>\<open>results.products\<close>.
\<close>

lemma sparse_products_in_order:
  assumes "products r = Some ps" and "prices r = Some pm"
    and "\<forall>p\<in>set ps. \<forall>obs. pm (id_field p) = Some obs \<longrightarrow> numeric_prices obs"
    and "\<forall>p\<in>set ps. pm (id_field p) = None \<longrightarrow> plain_id (id_field p)"
  shows "(pm pid = None \<and> plain_id pid \<longrightarrow>
            getLowestPrice v (Some r) pid = Inr None
            \<and> prepareChartData v (Some r) pid = Inr None)
       \<and> (\<exists>cs. cards v (Some r) = Inr cs
             \<and> map card_key cs = map id_field ps \<and> map card_product cs = ps
             \<and> (\<forall>i<length ps. pm (id_field (ps ! i)) = None \<longrightarrow>
                    best_price (cs ! i) = None \<and> chart (cs ! i) = None))"
proof
  show "pm pid = None \<and> plain_id pid \<longrightarrow>
          getLowestPrice v (Some r) pid = Inr None \<and> prepareChartData v (Some r) pid = Inr None"
    by (simp add: getLowestPrice_eq prepareChartData_eq observations_Absent assms(2))
  define low where "low = (\<lambda>p::product. case getLowestPrice v (Some r) (id_field p) of
                                  Inr (Some lp) \<Rightarrow> Some (amount lp, store lp) | _ \<Rightarrow> None)"
  define cht where "cht = (\<lambda>p::product. case prepareChartData v (Some r) (id_field p) of
                                  Inr c \<Rightarrow> c | Inl e \<Rightarrow> None)"
  define g where "g = (\<lambda>p::product. \<lparr> card_key = id_field p, card_product = p,
       best_price = low p, chart = cht p \<rparr>)"
  have one: "(case v of GuestSearch \<Rightarrow> GuestSearch_card (Some r)
              | Search \<Rightarrow> Search_card (Some r)) p = Inr (g p)" if p: "p \<in> set ps" for p
  proof (cases "pm (id_field p)")
    case None
    with assms(4) p have "observations (Some r) (id_field p) = Absent"
      by (simp add: observations_Absent assms(2))
    then show ?thesis
      by (simp add: card_eq g_def low_def cht_def getLowestPrice_eq prepareChartData_eq)
  next
    case (Some obs)
    then have ob: "observations (Some r) (id_field p) = Own obs"
      by (simp add: observations_Own assms(2))
    from Some assms(3) p have num: "numeric_prices obs" by blast
    show ?thesis
    proof (cases obs)
      case Nil
      with ob show ?thesis
        by (simp add: card_eq g_def low_def cht_def getLowestPrice_eq prepareChartData_eq)
    next
      case (Cons a xs)
      with ob have lp: "getLowestPrice v (Some r) (id_field p) = Inr (Some (foldl cheaper a xs))"
        by (simp add: getLowestPrice_eq)
      from lowest_numeric [OF ob num lp]
      have "toFixed (price (foldl cheaper a xs)) = Inr (amount (foldl cheaper a xs))" .
      with lp ob show ?thesis
        by (simp add: card_eq g_def low_def cht_def prepareChartData_eq)
    qed
  qed
  have cs: "cards v (Some r) = Inr (map g ps)"
    unfolding cards_eq [OF assms(1)] by (rule map_or_raise_Inr) (rule one)
  have "map card_key (map g ps) = map id_field ps" "map card_product (map g ps) = ps"
    by (simp_all add: g_def comp_def)
  moreover have "\<forall>i<length ps. pm (id_field (ps ! i)) = None \<longrightarrow>
                    best_price (map g ps ! i) = None \<and> chart (map g ps ! i) = None"
  proof (intro allI impI)
    fix i assume i: "i < length ps" and no: "pm (id_field (ps ! i)) = None"
    with assms(4) have "observations (Some r) (id_field (ps ! i)) = Absent"
      by (simp add: observations_Absent assms(2))
    with i show "best_price (map g ps ! i) = None \<and> chart (map g ps ! i) = None"
      by (simp add: g_def low_def cht_def getLowestPrice_eq prepareChartData_eq)
  qed
  ultimately show "\<exists>cs. cards v (Some r) = Inr cs
             \<and> map card_key cs = map id_field ps \<and> map card_product cs = ps
             \<and> (\<forall>i<length ps. pm (id_field (ps ! i)) = None \<longrightarrow>
                    best_price (cs ! i) = None \<and> chart (cs ! i) = None)"
    using cs by blast
qed

subsection \<open>The example inputs\<close>

lemma numeric_tie_example: "numeric_prices tie_example"
  by (simp add: numeric_prices_def tie_example_def)

lemma tie_example_nonempty: "tie_example \<noteq> []"
  by (simp add: tie_example_def)

lemma sparse_example_prices:
  "prices sparse_example =
     Some [''P1'' \<mapsto> tie_example, ''P3'' \<mapsto> [\<lparr>store = ''D'', price = JNumber 1\<rparr>]]"
  by (simp add: sparse_example_def)

lemma sparse_example_P1:
  "[''P1'' \<mapsto> tie_example, ''P3'' \<mapsto> [\<lparr>store = ''D'', price = JNumber 1\<rparr>]] ''P1''
     = Some tie_example"
  by simp

lemma tie_example_only_P1:
  "prices \<lparr>products = None, prices = Some [''P1'' \<mapsto> tie_example]\<rparr>
     = Some [''P1'' \<mapsto> tie_example]"
  "[''P1'' \<mapsto> tie_example] ''P1'' = Some tie_example"
  by simp_all

text \<open>The sparse example renders in product order, \<open>P2\<close> without price and chart.\<close>

lemma sparse_example_cards:
  "getLowestPrice GuestSearch (Some sparse_example) ''P2'' = Inr None
   \<and> prepareChartData GuestSearch (Some sparse_example) ''P2'' = Inr None
   \<and> map_sum id (map card_key) (cards GuestSearch (Some sparse_example))
       = Inr [''P1'', ''P2'', ''P3'']"
proof -
  let ?ps = "[example_product ''P1'' ''milk'', example_product ''P2'' ''oat milk'',
              example_product ''P3'' ''butter'']"
  let ?pm = "[''P1'' \<mapsto> tie_example, ''P3'' \<mapsto> [\<lparr>store = ''D'', price = JNumber 1\<rparr>]]"
  have ps: "products sparse_example = Some ?ps"
    by (simp add: sparse_example_def)
  have num: "\<forall>p\<in>set ?ps. \<forall>obs. ?pm (id_field p) = Some obs \<longrightarrow> numeric_prices obs"
    by (simp add: example_product_def numeric_tie_example) (simp add: numeric_prices_def)
  have plain: "\<forall>p\<in>set ?ps. ?pm (id_field p) = None \<longrightarrow> plain_id (id_field p)"
    by (simp add: example_product_def plain_id_def Object_prototype_def)
  have none: "?pm ''P2'' = None \<and> plain_id ''P2''"
    by (simp add: plain_id_def Object_prototype_def)
  from sparse_products_in_order [OF ps sparse_example_prices num plain, of "''P2''" GuestSearch]
    none
  obtain cs where "getLowestPrice GuestSearch (Some sparse_example) ''P2'' = Inr None"
    and "prepareChartData GuestSearch (Some sparse_example) ''P2'' = Inr None"
    and "cards GuestSearch (Some sparse_example) = Inr cs"
    and "map card_key cs = map id_field ?ps"
    by blast
  then show ?thesis
    by (simp add: example_product_def)
qed

text \<open>Sorting an array in place does change it; the heap model can tell the difference.\<close>

lemma sort_without_copy_mutates:
  "snd (sort_in_place by_price 0 [tie_example]) \<noteq> [tie_example]"
  by (simp add: sort_in_place_def tie_example_def Array_sort_def SortCompare_def by_price_def
      js_sub_def)

section \<open>Properties of the selector and the series builder\<close>

text \<open>
  C1. For a product whose observation array is non-empty and holds numeric prices,
  \<^verbatim>\<open>getLowestPrice\<close> (in either view) returns an element of the array whose price is at
  most every price in the array, and every observation before it in the array is strictly
  more expensive: among tied minima it is the first in input order.
\<close>

theorem getLowestPrice_first_minimum:
  assumes "prices r = Some pm" and "pm pid = Some ps" and "ps \<noteq> []" and "numeric_prices ps"
  shows "\<exists>i<length ps. getLowestPrice v (Some r) pid = Inr (Some (ps ! i))
           \<and> (\<forall>j<length ps. amount (ps ! i) \<le> amount (ps ! j))
           \<and> (\<forall>j<i. amount (ps ! i) < amount (ps ! j))"
  using assms by (intro first_min_lowest) (simp_all add: observations_Own)

text \<open>On \<open>[{A,2.00},{B,2.00},{C,1.50}]\<close> the properties leave only \<open>{C,1.50}\<close>.\<close>

theorem getLowestPrice_first_minimum_witness:
  "numeric_prices tie_example \<and> tie_example \<noteq> []
   \<and> getLowestPrice GuestSearch (Some sparse_example) ''P1''
       = Inr (Some \<lparr>store = ''C'', price = JNumber (3/2)\<rparr>)"
proof -
  from getLowestPrice_first_minimum [OF sparse_example_prices sparse_example_P1
      tie_example_nonempty numeric_tie_example, of GuestSearch]
  obtain i where i: "i < length tie_example"
    and lo: "getLowestPrice GuestSearch (Some sparse_example) ''P1''
               = Inr (Some (tie_example ! i))"
    and le: "\<forall>j<length tie_example. amount (tie_example ! i) \<le> amount (tie_example ! j)"
    by blast
  have "2 < length tie_example"
    by (simp add: tie_example_def)
  with le have "amount (tie_example ! i) \<le> amount (tie_example ! 2)"
    by blast
  moreover from i have "i = 0 \<or> i = 1 \<or> i = 2"
    by (auto simp: tie_example_def)
  ultimately have "i = 2"
    by (auto simp: tie_example_def amount_def)
  with lo show ?thesis
    by (simp add: numeric_tie_example tie_example_nonempty) (simp add: tie_example_def)
qed

text \<open>
  C2. For a product whose observations hold numeric prices, \<^verbatim>\<open>prepareChartData\<close> returns
  a chart whose labels and data are the stores and prices of \<^verbatim>\<open>sortedPrices\<close>, and
  \<^verbatim>\<open>sortedPrices\<close> is sorted non-decreasing by price and is a permutation of the input
  (equal as multisets: nothing added, dropped or duplicated).
\<close>

theorem sortedPrices_sorted_permutation:
  assumes "prices r = Some pm" and "pm pid = Some ps" and "numeric_prices ps"
  shows "\<exists>c d. prepareChartData v (Some r) pid = Inr (Some c) \<and> datasets c = [d]
           \<and> labels c = map store (sortedPrices v ps)
           \<and> data d = map price (sortedPrices v ps)
           \<and> sorted (map amount (sortedPrices v ps))
           \<and> mset (sortedPrices v ps) = mset ps"
proof -
  have "sorted (map amount (sortedPrices v ps))"
    by (simp add: sortedPrices_eq Array_sort_numeric assms(3))
  moreover have "mset (sortedPrices v ps) = mset ps"
    by (simp add: sortedPrices_eq mset_Array_sort)
  ultimately show ?thesis
    using chart_of_series [OF assms(1,2), of v] by blast
qed

theorem sortedPrices_sorted_permutation_witness:
  "numeric_prices tie_example
   \<and> sorted (map amount (sortedPrices Search tie_example))
   \<and> mset (sortedPrices Search tie_example) = mset tie_example"
  using sortedPrices_sorted_permutation [OF sparse_example_prices sparse_example_P1
      numeric_tie_example, of Search] numeric_tie_example
  by blast

text \<open>
  C3. For a product whose observation array is non-empty and holds numeric prices, both
  closures produce a result and the first element of \<^verbatim>\<open>sortedPrices\<close>, whose store and
  price head the labels and data of the chart that \<^verbatim>\<open>prepareChartData\<close> returns, is the
  observation that \<^verbatim>\<open>getLowestPrice\<close> returns, also when the minimum price is tied.
\<close>

theorem series_head_is_lowest:
  assumes "prices r = Some pm" and "pm pid = Some ps" and "ps \<noteq> []" and "numeric_prices ps"
  shows "\<exists>lo rest c d. getLowestPrice v (Some r) pid = Inr (Some lo)
           \<and> sortedPrices v ps = lo # rest
           \<and> prepareChartData v (Some r) pid = Inr (Some c) \<and> datasets c = [d]
           \<and> labels c = store lo # map store rest
           \<and> data d = price lo # map price rest"
proof -
  have "observations (Some r) pid = Own ps"
    by (simp add: observations_Own assms)
  from first_min_lowest [OF assms(4) assms(3) this, of v]
  obtain i where i: "i < length ps"
    and lo: "getLowestPrice v (Some r) pid = Inr (Some (ps ! i))"
    and le: "\<forall>j<length ps. amount (ps ! i) \<le> amount (ps ! j)"
    and first: "\<forall>j<i. amount (ps ! i) < amount (ps ! j)"
    by blast
  from hd_sort_key_first_min [OF i le first]
  obtain rest where "sort_key amount ps = ps ! i # rest" ..
  then have sp: "sortedPrices v ps = ps ! i # rest"
    by (simp add: sortedPrices_eq Array_sort_numeric assms(4))
  from chart_of_series [OF assms(1,2), of v]
  obtain c d where "prepareChartData v (Some r) pid = Inr (Some c)" and "datasets c = [d]"
    and "labels c = map store (sortedPrices v ps)"
    and "data d = map price (sortedPrices v ps)"
    by blast
  with lo sp show ?thesis by auto
qed

theorem series_head_is_lowest_witness:
  "numeric_prices tied_minimum_example \<and> tied_minimum_example \<noteq> []
   \<and> getLowestPrice Search
       (Some \<lparr>products = None, prices = Some [''P1'' \<mapsto> tied_minimum_example]\<rparr>) ''P1''
       = Inr (Some (hd (sortedPrices Search tied_minimum_example)))
   \<and> hd (sortedPrices Search tied_minimum_example) = \<lparr>store = ''A'', price = JNumber 1\<rparr>"
proof -
  have num: "numeric_prices tied_minimum_example"
    by (simp add: numeric_prices_def tied_minimum_example_def)
  have ne: "tied_minimum_example \<noteq> []"
    by (simp add: tied_minimum_example_def)
  have pr: "prices \<lparr>products = None, prices = Some [''P1'' \<mapsto> tied_minimum_example]\<rparr>
              = Some [''P1'' \<mapsto> tied_minimum_example]"
    by simp
  have en: "[''P1'' \<mapsto> tied_minimum_example] ''P1'' = Some tied_minimum_example"
    by simp
  have "hd (sortedPrices Search tied_minimum_example) = \<lparr>store = ''A'', price = JNumber 1\<rparr>"
    by (simp add: sortedPrices_eq tied_minimum_example_def Array_sort_def SortCompare_def
        by_price_def js_sub_def)
  with series_head_is_lowest [OF pr en ne num, of Search] num ne show ?thesis
    by auto
qed

text \<open>
  C4. On an empty observation array \<^verbatim>\<open>getLowestPrice\<close> returns \<^verbatim>\<open>null\<close> (its check
  \<^verbatim>\<open>prices.length === 0\<close>), but \<^verbatim>\<open>prepareChartData\<close> has no such check: an empty array is
  truthy, so it returns a chart with empty labels and data rather than \<^verbatim>\<open>null\<close>, and the
  card of that product shows a chart. Evaluated here for a product \<open>P1\<close> whose entry in the
  price mapping is the empty array.
\<close>

theorem prepareChartData_empty_array:
  "getLowestPrice v (Some \<lparr>products = Some [example_product ''P1'' ''milk''],
                           prices = Some [''P1'' \<mapsto> []]\<rparr>) ''P1'' = Inr None
   \<and> prepareChartData v (Some \<lparr>products = Some [example_product ''P1'' ''milk''],
                               prices = Some [''P1'' \<mapsto> []]\<rparr>) ''P1''
       = Inr (Some \<lparr> labels = [],
                datasets = [\<lparr> label = price_label, data = [], backgroundColor = [],
                              borderColor = [], borderWidth = 1 \<rparr>] \<rparr>)
   \<and> cards v (Some \<lparr>products = Some [example_product ''P1'' ''milk''],
                    prices = Some [''P1'' \<mapsto> []]\<rparr>)
       = Inr [\<lparr> card_key = ''P1'', card_product = example_product ''P1'' ''milk'',
                best_price = None,
                chart = Some \<lparr> labels = [],
                               datasets = [\<lparr> label = price_label, data = [],
                                             backgroundColor = [], borderColor = [],
                                             borderWidth = 1 \<rparr>] \<rparr> \<rparr>]"
  by (cases v)
     (simp_all add: getLowestPrice_def prepareChartData_def cards_def
        GuestSearch_getLowestPrice_def Search_getLowestPrice_def
        GuestSearch_prepareChartData_def Search_prepareChartData_def get_property_def
        GuestSearch_sortedPrices_def Search_sortedPrices_def GuestSearch_chart_def
        Search_chart_def GuestSearch_cards_def Search_cards_def GuestSearch_card_def
        Search_card_def Array_sort_def example_product_def)

text \<open>
  C5. The series that \<^verbatim>\<open>prepareChartData\<close> returns is stable: for a product whose
  observations hold numeric prices it returns a chart whose labels and data are the stores
  and prices of \<^verbatim>\<open>sortedPrices\<close>, in which the observations of any one price appear in
  their input order; and on \<open>[{A,2.00},{B,2.00},{C,1.50}]\<close> \<^verbatim>\<open>sortedPrices\<close> is
  \<open>[{C,1.50},{A,2.00},{B,2.00}]\<close> and the chart has the labels \<open>C, A, B\<close> and the data
  \<open>1.50, 2.00, 2.00\<close>, with A before B.
\<close>

theorem sortedPrices_stable:
  "(numeric_prices ps \<longrightarrow>
      filter (\<lambda>p. amount p = k) (sortedPrices v ps) = filter (\<lambda>p. amount p = k) ps)
   \<and> (prices r = Some pm \<and> pm pid = Some ps \<and> numeric_prices ps \<longrightarrow>
        (\<exists>c d. prepareChartData v (Some r) pid = Inr (Some c) \<and> datasets c = [d]
           \<and> labels c = map store (sortedPrices v ps)
           \<and> data d = map price (sortedPrices v ps)))
   \<and> sortedPrices v tie_example =
       [\<lparr>store = ''C'', price = JNumber (3/2)\<rparr>,
        \<lparr>store = ''A'', price = JNumber 2\<rparr>,
        \<lparr>store = ''B'', price = JNumber 2\<rparr>]
   \<and> (\<exists>c d. prepareChartData v
               (Some \<lparr>products = None, prices = Some [''P1'' \<mapsto> tie_example]\<rparr>) ''P1''
             = Inr (Some c) \<and> datasets c = [d]
           \<and> labels c = [''C'', ''A'', ''B'']
           \<and> data d = [JNumber (3/2), JNumber 2, JNumber 2])"
proof (intro conjI)
  show "numeric_prices ps \<longrightarrow>
      filter (\<lambda>p. amount p = k) (sortedPrices v ps) = filter (\<lambda>p. amount p = k) ps"
    by (simp add: sortedPrices_eq Array_sort_numeric sort_key_stable)
  show "prices r = Some pm \<and> pm pid = Some ps \<and> numeric_prices ps \<longrightarrow>
        (\<exists>c d. prepareChartData v (Some r) pid = Inr (Some c) \<and> datasets c = [d]
           \<and> labels c = map store (sortedPrices v ps)
           \<and> data d = map price (sortedPrices v ps))"
    using chart_of_series [of r pm pid ps v] by blast
  show ex: "sortedPrices v tie_example =
       [\<lparr>store = ''C'', price = JNumber (3/2)\<rparr>,
        \<lparr>store = ''A'', price = JNumber 2\<rparr>,
        \<lparr>store = ''B'', price = JNumber 2\<rparr>]"
    by (simp add: sortedPrices_eq tie_example_def Array_sort_def SortCompare_def by_price_def
        js_sub_def)
  from chart_of_series [OF tie_example_only_P1, of v]
  show "\<exists>c d. prepareChartData v
               (Some \<lparr>products = None, prices = Some [''P1'' \<mapsto> tie_example]\<rparr>) ''P1''
             = Inr (Some c) \<and> datasets c = [d]
           \<and> labels c = [''C'', ''A'', ''B'']
           \<and> data d = [JNumber (3/2), JNumber 2, JNumber 2]"
    unfolding ex by simp
qed

theorem sortedPrices_stable_witness:
  "numeric_prices tie_example
   \<and> filter (\<lambda>p. amount p = 2) (sortedPrices GuestSearch tie_example)
       = [\<lparr>store = ''A'', price = JNumber 2\<rparr>, \<lparr>store = ''B'', price = JNumber 2\<rparr>]
   \<and> map_sum id (map_option labels)
       (prepareChartData GuestSearch (Some sparse_example) ''P1'')
       = Inr (Some (map store (sortedPrices GuestSearch tie_example)))"
proof -
  note st = sortedPrices_stable [of tie_example 2 GuestSearch sparse_example
      "[''P1'' \<mapsto> tie_example, ''P3'' \<mapsto> [\<lparr>store = ''D'', price = JNumber 1\<rparr>]]" "''P1''"]
  from st numeric_tie_example
  have "filter (\<lambda>p. amount p = 2) (sortedPrices GuestSearch tie_example)
          = filter (\<lambda>p. amount p = 2) tie_example"
    by blast
  also have "\<dots> = [\<lparr>store = ''A'', price = JNumber 2\<rparr>, \<lparr>store = ''B'', price = JNumber 2\<rparr>]"
    by (simp add: tie_example_def amount_def)
  finally have a: "filter (\<lambda>p. amount p = 2) (sortedPrices GuestSearch tie_example)
       = [\<lparr>store = ''A'', price = JNumber 2\<rparr>, \<lparr>store = ''B'', price = JNumber 2\<rparr>]" .
  from st sparse_example_prices sparse_example_P1 numeric_tie_example
  obtain c where "prepareChartData GuestSearch (Some sparse_example) ''P1'' = Inr (Some c)"
    and "labels c = map store (sortedPrices GuestSearch tie_example)"
    by blast
  with a numeric_tie_example show ?thesis
    by simp
qed

text \<open>
  C6. A product identifier with no entry in the price mapping should get \<^verbatim>\<open>null\<close> from
  both closures and a card without price and chart, in product order. The guard
  \<^verbatim>\<open>!results.prices[productId]\<close> does that for most identifiers (\<open>sparse_products_in_order\<close>),
  but it reads inherited members too: for a product named \<open>constructor\<close> with no entry it
  finds \<^verbatim>\<open>Object\<close>, the guard passes, both closures raise a TypeError and no card is
  rendered, not even for the product \<open>P1\<close> that has prices. Evaluated here for the
  products \<open>P1\<close> and \<open>constructor\<close> with prices for \<open>P1\<close> only.
\<close>

theorem inherited_name_raises:
  "getLowestPrice v
     (Some \<lparr>products = Some [example_product ''P1'' ''milk'',
                              example_product ''constructor'' ''oat milk''],
            prices = Some [''P1'' \<mapsto> tie_example]\<rparr>) ''constructor'' = Inl TypeError
   \<and> prepareChartData v
     (Some \<lparr>products = Some [example_product ''P1'' ''milk'',
                              example_product ''constructor'' ''oat milk''],
            prices = Some [''P1'' \<mapsto> tie_example]\<rparr>) ''constructor'' = Inl TypeError
   \<and> cards v
     (Some \<lparr>products = Some [example_product ''P1'' ''milk'',
                              example_product ''constructor'' ''oat milk''],
            prices = Some [''P1'' \<mapsto> tie_example]\<rparr>) = Inl TypeError"
proof -
  let ?r = "\<lparr>products = Some [example_product ''P1'' ''milk'',
                              example_product ''constructor'' ''oat milk''],
             prices = Some [''P1'' \<mapsto> tie_example]\<rparr>"
  have ob: "observations (Some ?r) ''constructor'' = Inherited (Some 1)"
    by (simp add: observations_def get_property_def Object_prototype_def)
  have low: "getLowestPrice v (Some ?r) ''constructor'' = Inl TypeError"
    by (simp add: getLowestPrice_eq ob)
  have cht: "prepareChartData v (Some ?r) ''constructor'' = Inl TypeError"
    by (simp add: prepareChartData_eq ob)
  have "cards v (Some ?r) = Inl TypeError"
    by (cases v)
       (simp_all add: cards_def GuestSearch_cards_def Search_cards_def GuestSearch_card_def
          Search_card_def GuestSearch_getLowestPrice_def Search_getLowestPrice_def
          GuestSearch_prepareChartData_def Search_prepareChartData_def get_property_def
          Object_prototype_def Array_reduce_def js_lt_def toFixed_def example_product_def
          tie_example_def)
  with low cht show ?thesis by simp
qed




text \<open>
  C8. The results of \<^verbatim>\<open>getLowestPrice\<close> and \<^verbatim>\<open>prepareChartData\<close> are determined by what
  they read for the product alone: two responses in which \<^verbatim>\<open>results.prices[productId]\<close>
  reads the same give the same lowest observation and the same chart. And on numeric prices the
  series is determined by the input whatever stable sorting algorithm runs: every sorted
  rearrangement of the input that keeps equal prices in input order is \<^verbatim>\<open>sortedPrices\<close>.
\<close>

theorem closures_deterministic:
  "(observations res1 pid = observations res2 pid \<longrightarrow>
      getLowestPrice v res1 pid = getLowestPrice v res2 pid
      \<and> prepareChartData v res1 pid = prepareChartData v res2 pid)
   \<and> (numeric_prices ps \<and> mset ys = mset ps \<and> sorted (map amount ys)
      \<and> (\<forall>k. filter (\<lambda>p. amount p = k) ys = filter (\<lambda>p. amount p = k) ps)
      \<longrightarrow> sortedPrices v ps = ys)"
  by (simp add: getLowestPrice_eq prepareChartData_eq sortedPrices_eq stable_sort_unique)

theorem closures_deterministic_witness:
  "observations (Some sparse_example) ''P1''
     = observations (Some \<lparr>products = None, prices = Some [''P1'' \<mapsto> tie_example]\<rparr>) ''P1''
   \<and> getLowestPrice GuestSearch (Some sparse_example) ''P1''
     = getLowestPrice GuestSearch
         (Some \<lparr>products = None, prices = Some [''P1'' \<mapsto> tie_example]\<rparr>) ''P1''
   \<and> prepareChartData GuestSearch (Some sparse_example) ''P1''
     = prepareChartData GuestSearch
         (Some \<lparr>products = None, prices = Some [''P1'' \<mapsto> tie_example]\<rparr>) ''P1''
   \<and> sortedPrices GuestSearch tie_example
     = [\<lparr>store = ''C'', price = JNumber (3/2)\<rparr>,
        \<lparr>store = ''A'', price = JNumber 2\<rparr>,
        \<lparr>store = ''B'', price = JNumber 2\<rparr>]"
proof -
  let ?ys = "[\<lparr>store = ''C'', price = JNumber (3/2)\<rparr>,
              \<lparr>store = ''A'', price = JNumber 2\<rparr>,
              \<lparr>store = ''B'', price = JNumber 2\<rparr>]"
  let ?res2 = "Some \<lparr>products = None, prices = Some [''P1'' \<mapsto> tie_example]\<rparr>"
  have same: "observations (Some sparse_example) ''P1'' = observations ?res2 ''P1''"
    by (simp add: observations_def get_property_def sparse_example_def)
  have perm: "mset ?ys = mset tie_example"
    by (simp add: tie_example_def)
  have srt: "sorted (map amount ?ys)"
    by (simp add: amount_def)
  have stable: "\<forall>k. filter (\<lambda>p. amount p = k) ?ys = filter (\<lambda>p. amount p = k) tie_example"
    by (simp add: tie_example_def amount_def)
  from closures_deterministic [of "Some sparse_example" "''P1''" ?res2 GuestSearch
      tie_example ?ys] same numeric_tie_example perm srt stable
  show ?thesis
    by blast
qed

text \<open>
  C9. The closures of the guest view and of the authenticated view are extensionally
  equal: \<^verbatim>\<open>getLowestPrice\<close> and \<^verbatim>\<open>prepareChartData\<close> of \<^verbatim>\<open>GuestSearch\<close> return the same
  result as those of \<^verbatim>\<open>Search\<close> on every response and product identifier.
\<close>

theorem views_agree:
  "GuestSearch_getLowestPrice = Search_getLowestPrice
   \<and> GuestSearch_prepareChartData = Search_prepareChartData"
proof
  show "GuestSearch_getLowestPrice = Search_getLowestPrice"
    by (intro ext) (simp add: GuestSearch_getLowestPrice_def Search_getLowestPrice_def)
  have "GuestSearch_sortedPrices ps = Search_sortedPrices ps" for ps
    by (simp add: GuestSearch_sortedPrices_def Search_sortedPrices_def)
  moreover have "GuestSearch_chart ps = Search_chart ps" for ps
    by (simp add: GuestSearch_chart_def Search_chart_def)
  ultimately show "GuestSearch_prepareChartData = Search_prepareChartData"
    by (intro ext)
       (simp add: GuestSearch_prepareChartData_def Search_prepareChartData_def
          split: option.splits property.splits)
qed

text \<open>
  C10. \<^verbatim>\<open>prepareChartData\<close> leaves every array that existed before the call unchanged, the
  input array among them: the heap after the call is the heap before it, extended by the
  sorted copy. Its result is the one of the value-level definition.
\<close>

theorem prepareChartData_input_unchanged:
  "take (length h) (snd (prepareChartData_heap v h res pid)) = h
   \<and> fst (prepareChartData_heap v h res pid) = prepareChartData v (deref h res) pid"
  by (cases v)
     (auto simp: prepareChartData_heap_def GuestSearch_prepareChartData_heap_def
        Search_prepareChartData_heap_def spread_def sort_in_place_def nth_append
        prepareChartData_def get_property_def
        GuestSearch_prepareChartData_def Search_prepareChartData_def
        GuestSearch_sortedPrices_def Search_sortedPrices_def deref_def
        split: option.splits)

end
